theory Spec2Isabelle
  imports Main
begin

section \<open>Data model\<close>

text \<open>
  The principal of \<^verbatim>\<open>auth.guard.ts\<close> (interface \<^verbatim>\<open>User\<close>): \<^verbatim>\<open>roles\<close> and
  \<^verbatim>\<open>claims\<close> are optional properties, so each is an option; \<open>None\<close> is
  \<^verbatim>\<open>undefined\<close>.
\<close>

record Claim =
  claim_type :: string
  claim_value :: string

record User =
  user_id :: string
  username :: string
  email :: string
  user_roles :: "string list option"
  user_claims :: "Claim list option"

text \<open>\<^verbatim>\<open>ClaimRequirement\<close> of \<^verbatim>\<open>types.ts\<close>: the value is optional.\<close>

record ClaimRequirement =
  req_type :: string
  req_value :: "string option"

text \<open>
  The metadata stored under \<^verbatim>\<open>struktos:claims\<close> has the type
  \<^verbatim>\<open>ClaimRequirement | ClaimRequirement[]\<close>.
\<close>

datatype RequiredClaims = Single ClaimRequirement | Multiple "ClaimRequirement list"

text \<open>
  The metadata of one target (a handler or a controller class) under the three keys
  \<^verbatim>\<open>struktos:public\<close>, \<^verbatim>\<open>struktos:roles\<close> and \<^verbatim>\<open>struktos:claims\<close>;
  \<open>None\<close> is a key that no decorator has written.
\<close>

record Metadata =
  STRUKTOS_PUBLIC_KEY :: "bool option"
  STRUKTOS_ROLES_KEY :: "string list option"
  STRUKTOS_CLAIMS_KEY :: "RequiredClaims option"

definition no_metadata :: Metadata where
  "no_metadata =
     \<lparr>STRUKTOS_PUBLIC_KEY = None, STRUKTOS_ROLES_KEY = None, STRUKTOS_CLAIMS_KEY = None\<rparr>"

text \<open>
  \<^verbatim>\<open>NestJSContextData\<close> of \<^verbatim>\<open>types.ts\<close> (the open index signature for custom
  keys is not modelled) and the context object of \<^verbatim>\<open>@struktos/core\<close> that carries it
  together with its cancellation flag.
\<close>

record NestJSContextData =
  traceId :: string
  requestId :: "string option"
  timestamp :: int
  http_method :: "string option"
  url :: "string option"
  ip :: "string option"
  userAgent :: "string option"
  user :: "User option"
  userId :: "string option"
  roles :: "string list option"

record RequestContext =
  ctx_data :: NestJSContextData
  cancelled :: bool

text \<open>
  The parts of the Express request that the middleware and the guard read or write.
  \<^verbatim>\<open>request.headers?.authorization\<close>: both the header object and the header may be
  missing.
\<close>

record Headers =
  authorization :: "string option"
  user_agent :: "string option"

record Request =
  req_id :: "string option"
  req_method :: "string option"
  originalUrl :: "string option"
  req_url :: "string option"
  req_ip :: "string option"
  remoteAddress :: "string option"
  headers :: "Headers option"
  req_user :: "User option"

text \<open>
  \<^verbatim>\<open>ExecutionContext\<close>: the metadata of the handler (operation level) and of its class
  (group level), as \<^verbatim>\<open>getHandler()\<close> and \<^verbatim>\<open>getClass()\<close> expose them to the
  reflector.
\<close>

record ExecutionContext =
  getHandler :: Metadata
  getClass :: Metadata

text \<open>
  The authentication provider: \<^verbatim>\<open>validateToken(token): Promise<any>\<close> either resolves
  (to a user or to \<^verbatim>\<open>null\<close>) or rejects.
\<close>

datatype TokenResult = Resolves "User option" | Rejects

record AuthService =
  validateToken :: "string \<Rightarrow> TokenResult"

text \<open>The guard holds the optionally injected provider.\<close>

record StruktosAuthGuard =
  authService :: "AuthService option"

text \<open>
  What a call of the guard can read and change: the ambient context
  (\<^verbatim>\<open>RequestContext.current()\<close>, \<open>None\<close> outside any scope), the request object, and
  the tokens handed to \<^verbatim>\<open>validateToken\<close> so far, oldest first.
\<close>

record World =
  current :: "RequestContext option"
  request :: Request
  validated :: "string list"

datatype HttpException = UnauthorizedException string | ForbiddenException string

section \<open>Decorators (auth.decorator.ts)\<close>

text \<open>
  Each decorator is \<^verbatim>\<open>SetMetadata(key, value)\<close>, which overwrites what the target
  holds under the key.
\<close>

datatype Decorator =
    Roles "string list"
  | RequireClaim string "string option"
  | RequireClaims "ClaimRequirement list"
  | Public

fun SetMetadata :: "Decorator \<Rightarrow> Metadata \<Rightarrow> Metadata" where
  "SetMetadata (Roles rs) m = m\<lparr>STRUKTOS_ROLES_KEY := Some rs\<rparr>"
| "SetMetadata (RequireClaim t v) m =
     m\<lparr>STRUKTOS_CLAIMS_KEY := Some (Single \<lparr>req_type = t, req_value = v\<rparr>)\<rparr>"
| "SetMetadata (RequireClaims cs) m = m\<lparr>STRUKTOS_CLAIMS_KEY := Some (Multiple cs)\<rparr>"
| "SetMetadata Public m = m\<lparr>STRUKTOS_PUBLIC_KEY := Some True\<rparr>"

text \<open>
  The decorators written on one target, top to bottom. TypeScript applies them bottom to
  top, so the one written first is applied last and its value stays.
\<close>

definition decorated :: "Decorator list \<Rightarrow> Metadata" where
  "decorated ds = foldr SetMetadata ds no_metadata"

section \<open>The reflector\<close>

text \<open>
  \<^verbatim>\<open>Reflector.getAllAndOverride(key, targets)\<close> of \<^verbatim>\<open>@nestjs/core\<close>: the value of
  the first target that has one under the key.
\<close>

fun getAllAndOverride :: "(Metadata \<Rightarrow> 'a option) \<Rightarrow> Metadata list \<Rightarrow> 'a option" where
  "getAllAndOverride key [] = None"
| "getAllAndOverride key (t # ts) =
     (case key t of Some v \<Rightarrow> Some v | None \<Rightarrow> getAllAndOverride key ts)"

section \<open>StruktosAuthGuard (auth.guard.ts)\<close>

text \<open>\<^verbatim>\<open>String.prototype.split\<close> with a one-character separator.\<close>

fun split_on :: "char \<Rightarrow> string \<Rightarrow> string list" where
  "split_on sep [] = [[]]"
| "split_on sep (c # cs) =
     (if c = sep then [] # split_on sep cs
      else (case split_on sep cs of
              [] \<Rightarrow> [[c]]
            | p # ps \<Rightarrow> (c # p) # ps))"

text \<open>\<^verbatim>\<open>Array.prototype.join\<close>.\<close>

fun join :: "string \<Rightarrow> string list \<Rightarrow> string" where
  "join sep [] = []"
| "join sep [x] = x"
| "join sep (x # y # ys) = x @ sep @ join sep (y # ys)"

text \<open>
  \<^verbatim>\<open>authenticateRequest\<close>: every early return and the \<^verbatim>\<open>catch\<close> give
  \<^verbatim>\<open>null\<close>; an empty header string is falsy. A call of \<^verbatim>\<open>validateToken\<close> is
  recorded in \<open>validated\<close>.
\<close>

definition authenticateRequest :: "StruktosAuthGuard \<Rightarrow> World \<Rightarrow> User option \<times> World" where
  "authenticateRequest g w =
     (case authService g of
        None \<Rightarrow> (None, w)
      | Some svc \<Rightarrow>
          (case Option.bind (headers (request w)) authorization of
             None \<Rightarrow> (None, w)
           | Some authHeader \<Rightarrow>
               if authHeader = [] then (None, w)
               else
                 let parts = split_on CHR '' '' authHeader in
                 if length parts \<noteq> 2 \<or> parts ! 0 \<noteq> ''Bearer'' then (None, w)
                 else
                   let token = parts ! 1;
                       w' = w\<lparr>validated := validated w @ [token]\<rparr>
                   in (case validateToken svc token of
                         Resolves u \<Rightarrow> (u, w')
                       | Rejects \<Rightarrow> (None, w'))))"

text \<open>\<^verbatim>\<open>getUserFromContext\<close>: \<^verbatim>\<open>ctx?.get('user')\<close>.\<close>

definition getUserFromContext :: "World \<Rightarrow> User option" where
  "getUserFromContext w =
     (case current w of None \<Rightarrow> None | Some ctx \<Rightarrow> user (ctx_data ctx))"

text \<open>
  \<^verbatim>\<open>storeUserInContext\<close>: the three \<^verbatim>\<open>ctx.set\<close> calls happen only inside a scope;
  \<^verbatim>\<open>request.user\<close> is always written. \<^verbatim>\<open>user.roles || []\<close>.
\<close>

definition storeUserInContext :: "User \<Rightarrow> World \<Rightarrow> World" where
  "storeUserInContext u w =
     w\<lparr>current :=
         (case current w of
            None \<Rightarrow> None
          | Some ctx \<Rightarrow>
              Some (ctx\<lparr>ctx_data := (ctx_data ctx)
                     \<lparr>user := Some u,
                      userId := Some (user_id u),
                      roles := Some (case user_roles u of None \<Rightarrow> [] | Some rs \<Rightarrow> rs)\<rparr>\<rparr>)),
       request := (request w)\<lparr>req_user := Some u\<rparr>\<rparr>"

text \<open>\<^verbatim>\<open>checkRoles\<close>: a user without roles fails; otherwise any listed role suffices.\<close>

definition checkRoles :: "User \<Rightarrow> string list \<Rightarrow> bool" where
  "checkRoles u requiredRoles =
     (case user_roles u of
        None \<Rightarrow> False
      | Some rs \<Rightarrow>
          if length rs = 0 then False
          else list_ex (\<lambda>role. role \<in> set rs) requiredRoles)"

text \<open>
  \<^verbatim>\<open>checkClaims\<close>: a user without claims fails before the requirements are looked at;
  otherwise every requirement needs a claim of its type and, when it names a value, of that
  value.
\<close>

definition checkClaims :: "User \<Rightarrow> RequiredClaims \<Rightarrow> bool" where
  "checkClaims u requiredClaims =
     (case user_claims u of
        None \<Rightarrow> False
      | Some ucs \<Rightarrow>
          if length ucs = 0 then False
          else
            let claims = (case requiredClaims of Multiple rs \<Rightarrow> rs | Single r \<Rightarrow> [r]) in
            list_all (\<lambda>requirement.
              list_ex (\<lambda>claim.
                if claim_type claim \<noteq> req_type requirement then False
                else (case req_value requirement of
                        Some v \<Rightarrow> claim_value claim = v
                      | None \<Rightarrow> True)) ucs) claims)"

text \<open>
  The text of the claims in the Forbidden message:
  \<^verbatim>\<open>`${c.type}:${c.value || '*'}`\<close>, where a missing and an empty value both give
  the star.
\<close>

definition claimStr :: "ClaimRequirement \<Rightarrow> string" where
  "claimStr c =
     req_type c @ '':'' @
       (case req_value c of None \<Rightarrow> ''*'' | Some v \<Rightarrow> if v = [] then ''*'' else v)"

definition claimsStr :: "RequiredClaims \<Rightarrow> string" where
  "claimsStr requiredClaims =
     (case requiredClaims of
        Multiple rs \<Rightarrow> join '', '' (map claimStr rs)
      | Single r \<Rightarrow> claimStr r)"

text \<open>
  The constants that \<^verbatim>\<open>canActivate\<close> computes first. \<open>isPublic\<close>,
  \<open>requiredRoles\<close> and \<open>requiredClaims\<close> are the three reflector lookups, the handler
  before the class. \<open>resolveUser\<close> is the block that finds the user: the one of the
  context, else \<^verbatim>\<open>request.user\<close>, else, when a provider is injected, the result of
  \<^verbatim>\<open>authenticateRequest\<close>. \<open>authRequired\<close> is the condition
  \<^verbatim>\<open>(requiredRoles && requiredRoles.length > 0) || requiredClaims\<close>: an array or an
  object is truthy, also the empty array.
\<close>

definition isPublic :: "ExecutionContext \<Rightarrow> bool option" where
  "isPublic ec = getAllAndOverride STRUKTOS_PUBLIC_KEY [getHandler ec, getClass ec]"

definition requiredRoles :: "ExecutionContext \<Rightarrow> string list option" where
  "requiredRoles ec = getAllAndOverride STRUKTOS_ROLES_KEY [getHandler ec, getClass ec]"

definition requiredClaims :: "ExecutionContext \<Rightarrow> RequiredClaims option" where
  "requiredClaims ec = getAllAndOverride STRUKTOS_CLAIMS_KEY [getHandler ec, getClass ec]"

definition resolveUser :: "StruktosAuthGuard \<Rightarrow> World \<Rightarrow> User option \<times> World" where
  "resolveUser g w =
     (let usr = (case getUserFromContext w of
                   Some u \<Rightarrow> Some u
                 | None \<Rightarrow> req_user (request w))
      in if usr = None \<and> authService g \<noteq> None then authenticateRequest g w
         else (usr, w))"

definition rolesRequired :: "ExecutionContext \<Rightarrow> bool" where
  "rolesRequired ec = (case requiredRoles ec of None \<Rightarrow> False | Some rs \<Rightarrow> length rs > 0)"

definition authRequired :: "ExecutionContext \<Rightarrow> bool" where
  "authRequired ec = (rolesRequired ec \<or> requiredClaims ec \<noteq> None)"

text \<open>
  \<^verbatim>\<open>canActivate\<close>. A thrown exception is \<open>Inl\<close>; the world is returned in either case,
  since what was written before a throw stays written.
\<close>

definition canActivate ::
  "StruktosAuthGuard \<Rightarrow> ExecutionContext \<Rightarrow> World \<Rightarrow> (HttpException + bool) \<times> World" where
  "canActivate g ec w =
     (if isPublic ec = Some True then (Inr True, w)
      else
        let (usr, w1) = resolveUser g w in
        if authRequired ec then
          (case usr of
             None \<Rightarrow> (Inl (UnauthorizedException ''Authentication required''), w1)
           | Some u \<Rightarrow>
               let w2 = storeUserInContext u w1;
                   missingRoles =
                     (case requiredRoles ec of
                        None \<Rightarrow> None
                      | Some rs \<Rightarrow>
                          if length rs > 0 \<and> \<not> checkRoles u rs then Some rs else None)
               in
                 (case missingRoles of
                    Some rs \<Rightarrow>
                      (Inl (ForbiddenException (''Required roles: '' @ join '', '' rs)), w2)
                  | None \<Rightarrow>
                      (case requiredClaims ec of
                         None \<Rightarrow> (Inr True, storeUserInContext u w2)
                       | Some rc \<Rightarrow>
                           if \<not> checkClaims u rc
                           then (Inl (ForbiddenException
                                        (''Required claims: '' @ claimsStr rc)), w2)
                           else (Inr True, storeUserInContext u w2))))
        else
          (case usr of
             None \<Rightarrow> (Inr True, w1)
           | Some u \<Rightarrow> (Inr True, storeUserInContext u w1)))"

text \<open>
  \<^verbatim>\<open>StruktosClaimsGuard.canActivate\<close>, the claims-only guard of the same file. It
  takes the user of the context, else \<^verbatim>\<open>request.user\<close>, and walks the requirements
  one by one; \<^verbatim>\<open>user.claims?.some(...)\<close> is falsy for a user without claims.
\<close>

definition getUser :: "World \<Rightarrow> User option" where
  "getUser w =
     (case getUserFromContext w of Some u \<Rightarrow> Some u | None \<Rightarrow> req_user (request w))"

definition hasClaim :: "User \<Rightarrow> ClaimRequirement \<Rightarrow> bool" where
  "hasClaim u requirement =
     (case user_claims u of
        None \<Rightarrow> False
      | Some ucs \<Rightarrow>
          list_ex (\<lambda>claim.
            if claim_type claim \<noteq> req_type requirement then False
            else (case req_value requirement of
                    Some v \<Rightarrow> claim_value claim = v
                  | None \<Rightarrow> True)) ucs)"

fun claimsLoop :: "User \<Rightarrow> ClaimRequirement list \<Rightarrow> HttpException + bool" where
  "claimsLoop u [] = Inr True"
| "claimsLoop u (requirement # rest) =
     (if \<not> hasClaim u requirement
      then Inl (ForbiddenException
                  (''Required claim: '' @ req_type requirement @
                     (case req_value requirement of
                        None \<Rightarrow> []
                      | Some v \<Rightarrow> if v = [] then [] else '':'' @ v)))
      else claimsLoop u rest)"

definition claimsGuard_canActivate :: "ExecutionContext \<Rightarrow> World \<Rightarrow> HttpException + bool" where
  "claimsGuard_canActivate ec w =
     (case requiredClaims ec of
        None \<Rightarrow> Inr True
      | Some rc \<Rightarrow>
          (case getUser w of
             None \<Rightarrow> Inl (UnauthorizedException ''Authentication required'')
           | Some u \<Rightarrow>
               claimsLoop u (case rc of Multiple rs \<Rightarrow> rs | Single r \<Rightarrow> [r])))"

section \<open>Context decorators (context.decorator.ts)\<close>

text \<open>
  What a parameter decorator can hand to a controller method. Each decorator takes the
  result of \<^verbatim>\<open>RequestContext.current()\<close>; \<open>None\<close> is \<^verbatim>\<open>undefined\<close>.
\<close>

datatype ContextValue =
    VString string
  | VNumber int
  | VUser User
  | VStrings "string list"
  | VClaims "Claim list"
  | VContext RequestContext

text \<open>\<^verbatim>\<open>context.get(key)\<close> on the keys that \<^verbatim>\<open>NestJSContextData\<close> names.\<close>

definition context_get :: "string \<Rightarrow> RequestContext \<Rightarrow> ContextValue option" where
  "context_get key ctx =
     (let d = ctx_data ctx in
      if key = ''traceId'' then Some (VString (traceId d))
      else if key = ''requestId'' then map_option VString (requestId d)
      else if key = ''timestamp'' then Some (VNumber (timestamp d))
      else if key = ''method'' then map_option VString (http_method d)
      else if key = ''url'' then map_option VString (url d)
      else if key = ''ip'' then map_option VString (ip d)
      else if key = ''userAgent'' then map_option VString (userAgent d)
      else if key = ''user'' then map_option VUser (user d)
      else if key = ''userId'' then map_option VString (userId d)
      else if key = ''roles'' then map_option VStrings (roles d)
      else None)"

text \<open>\<^verbatim>\<open>user[data]\<close>: a property of the user object.\<close>

definition user_property :: "string \<Rightarrow> User \<Rightarrow> ContextValue option" where
  "user_property key u =
     (if key = ''id'' then Some (VString (user_id u))
      else if key = ''username'' then Some (VString (username u))
      else if key = ''email'' then Some (VString (email u))
      else if key = ''roles'' then map_option VStrings (user_roles u)
      else if key = ''claims'' then map_option VClaims (user_claims u)
      else None)"

text \<open>
  The six decorators. A key is used when it is truthy, so a missing and an empty key both
  give the whole object. \<open>IsCancelled\<close> returns a function that the handler calls later.
\<close>

definition Ctx :: "string option \<Rightarrow> RequestContext option \<Rightarrow> ContextValue option" where
  "Ctx data cur =
     (case cur of
        None \<Rightarrow> None
      | Some ctx \<Rightarrow>
          (case data of
             None \<Rightarrow> Some (VContext ctx)
           | Some key \<Rightarrow> if key = [] then Some (VContext ctx) else context_get key ctx))"

definition TraceId :: "RequestContext option \<Rightarrow> string option" where
  "TraceId cur = (case cur of None \<Rightarrow> None | Some ctx \<Rightarrow> Some (traceId (ctx_data ctx)))"

definition CurrentUser :: "string option \<Rightarrow> RequestContext option \<Rightarrow> ContextValue option" where
  "CurrentUser data cur =
     (case (case cur of None \<Rightarrow> None | Some ctx \<Rightarrow> user (ctx_data ctx)) of
        None \<Rightarrow> None
      | Some u \<Rightarrow>
          (case data of
             None \<Rightarrow> Some (VUser u)
           | Some key \<Rightarrow> if key = [] then Some (VUser u) else user_property key u))"

definition UserId :: "RequestContext option \<Rightarrow> string option" where
  "UserId cur = (case cur of None \<Rightarrow> None | Some ctx \<Rightarrow> userId (ctx_data ctx))"

definition RequestTimestamp :: "RequestContext option \<Rightarrow> int option" where
  "RequestTimestamp cur =
     (case cur of None \<Rightarrow> None | Some ctx \<Rightarrow> Some (timestamp (ctx_data ctx)))"

definition IsCancelled :: "RequestContext option \<Rightarrow> unit \<Rightarrow> bool" where
  "IsCancelled cur = (\<lambda>_. case cur of None \<Rightarrow> False | Some ctx \<Rightarrow> cancelled ctx)"

section \<open>StruktosMiddleware\<close>

text \<open>
  The resolved options of the middleware. The two lifecycle callbacks are not fields: their
  calls are counted in the state below.
\<close>

record StruktosCoreModuleOptions =
  generateTraceId :: "unit \<Rightarrow> string"
  enableCancellation :: bool
  extractUser :: "Request \<Rightarrow> User option"

text \<open>
  The three closures that \<^verbatim>\<open>use\<close> registers as event listeners: \<open>OnClose\<close> is
  \<^verbatim>\<open>() => context.cancel()\<close>, \<open>RemoveOnClose\<close> is the first \<^verbatim>\<open>finish\<close> listener,
  which takes \<open>OnClose\<close> off the request, and \<open>OnFinish\<close> is the second one, which calls
  \<^verbatim>\<open>onContextDestroyed\<close>.
\<close>

datatype Listener = OnClose | RemoveOnClose | OnFinish

text \<open>
  What one request's middleware run leaves behind: the context of the scope, the listeners
  on the request's \<^verbatim>\<open>close\<close> and \<^verbatim>\<open>aborted\<close> events and on the response's
  \<^verbatim>\<open>finish\<close> event in the order of their registration, how often each callback and
  \<^verbatim>\<open>next\<close> have been called, whether \<^verbatim>\<open>req.struktosContext\<close> refers to the
  scope's context, and \<^verbatim>\<open>req.traceId\<close>.
\<close>

record Lifecycle =
  scope :: "RequestContext option"
  closeListeners :: "Listener list"
  abortedListeners :: "Listener list"
  finishListeners :: "Listener list"
  created :: nat
  destroyed :: nat
  nextCalls :: nat
  struktosContext :: bool
  req_traceId :: "string option"

text \<open>
  \<^verbatim>\<open>RequestContext.run(data, callback)\<close> of \<^verbatim>\<open>@struktos/core\<close>: the callback runs
  in a new scope whose context holds the data and is not cancelled, so
  \<^verbatim>\<open>RequestContext.current()\<close> inside it is that context.
\<close>

definition run :: "NestJSContextData \<Rightarrow> (RequestContext option \<Rightarrow> 'a) \<Rightarrow> 'a" where
  "run contextData callback = callback (Some \<lparr>ctx_data = contextData, cancelled = False\<rparr>)"

text \<open>\<^verbatim>\<open>a || b\<close> on optional strings: a missing and an empty string are falsy.\<close>

definition or_else :: "string option \<Rightarrow> string option \<Rightarrow> string option" where
  "or_else a b = (case a of None \<Rightarrow> b | Some x \<Rightarrow> if x = [] then b else Some x)"

text \<open>
  \<^verbatim>\<open>StruktosMiddleware.use\<close>, with the time of the call as a parameter. The listeners
  are registered only when the scope has a context.
\<close>

definition use :: "StruktosCoreModuleOptions \<Rightarrow> Request \<Rightarrow> int \<Rightarrow> Lifecycle" where
  "use options req now =
     (let trace = generateTraceId options ();
          usr = extractUser options req;
          contextData =
            \<lparr>traceId = trace,
             requestId = Some (case req_id req of None \<Rightarrow> trace | Some i \<Rightarrow> i),
             timestamp = now,
             http_method = req_method req,
             url = or_else (originalUrl req) (req_url req),
             ip = or_else (req_ip req) (remoteAddress req),
             userAgent = Option.bind (headers req) user_agent,
             user = usr,
             userId = map_option user_id usr,
             roles = None\<rparr>
      in run contextData (\<lambda>cur.
           (case cur of
              None \<Rightarrow>
                \<lparr>scope = None, closeListeners = [], abortedListeners = [],
                 finishListeners = [], created = 0, destroyed = 0, nextCalls = 1,
                 struktosContext = False, req_traceId = None\<rparr>
            | Some ctx \<Rightarrow>
                \<lparr>scope = Some ctx,
                 closeListeners = (if enableCancellation options then [OnClose] else []),
                 abortedListeners = (if enableCancellation options then [OnClose] else []),
                 finishListeners =
                   (if enableCancellation options then [RemoveOnClose] else []) @ [OnFinish],
                 created = 1, destroyed = 0, nextCalls = 1,
                 struktosContext = True, req_traceId = Some trace\<rparr>)))"

text \<open>
  The transport's events and Node's \<^verbatim>\<open>EventEmitter\<close>: \<^verbatim>\<open>emit\<close> calls the listeners
  of the event in the order of their registration; \<^verbatim>\<open>removeListener\<close> takes away the
  most recently added instance. \<^verbatim>\<open>context.cancel()\<close> sets the flag.
\<close>

datatype Event = ReqClose | ReqAborted | ResFinish

definition removeListener :: "Listener \<Rightarrow> Listener list \<Rightarrow> Listener list" where
  "removeListener l ls = rev (remove1 l (rev ls))"

fun invoke :: "Listener \<Rightarrow> Lifecycle \<Rightarrow> Lifecycle" where
  "invoke OnClose s =
     s\<lparr>scope := (case scope s of None \<Rightarrow> None | Some ctx \<Rightarrow> Some (ctx\<lparr>cancelled := True\<rparr>))\<rparr>"
| "invoke RemoveOnClose s =
     s\<lparr>closeListeners := removeListener OnClose (closeListeners s),
       abortedListeners := removeListener OnClose (abortedListeners s)\<rparr>"
| "invoke OnFinish s = s\<lparr>destroyed := destroyed s + 1\<rparr>"

definition listeners :: "Event \<Rightarrow> Lifecycle \<Rightarrow> Listener list" where
  "listeners e s =
     (case e of
        ReqClose \<Rightarrow> closeListeners s
      | ReqAborted \<Rightarrow> abortedListeners s
      | ResFinish \<Rightarrow> finishListeners s)"

definition emit :: "Event \<Rightarrow> Lifecycle \<Rightarrow> Lifecycle" where
  "emit e s = fold invoke (listeners e s) s"

text \<open>The events of one request, delivered in order.\<close>

definition deliver :: "Event list \<Rightarrow> Lifecycle \<Rightarrow> Lifecycle" where
  "deliver es s = fold emit es s"

text \<open>
  The wiring that \<^verbatim>\<open>use\<close> sets up and every event keeps: the listener that calls
  \<^verbatim>\<open>onContextDestroyed\<close> is registered once on \<^verbatim>\<open>finish\<close> and on no event of
  the request.
\<close>

definition wired :: "Lifecycle \<Rightarrow> bool" where
  "wired s =
     (count_list (finishListeners s) OnFinish = 1
      \<and> OnFinish \<notin> set (closeListeners s) \<and> OnFinish \<notin> set (abortedListeners s))"

section \<open>The specification's notions\<close>

text \<open>
  The effective requirement of a category, in the specification's words: the
  operation-level declaration if present, else the group-level one, else none.
\<close>

definition effectiveRoleRequirement :: "Metadata \<Rightarrow> Metadata \<Rightarrow> string list option" where
  "effectiveRoleRequirement operation grp =
     (if STRUKTOS_ROLES_KEY operation \<noteq> None then STRUKTOS_ROLES_KEY operation
      else STRUKTOS_ROLES_KEY grp)"

definition effectiveClaimRequirement :: "Metadata \<Rightarrow> Metadata \<Rightarrow> RequiredClaims option" where
  "effectiveClaimRequirement operation grp =
     (if STRUKTOS_CLAIMS_KEY operation \<noteq> None then STRUKTOS_CLAIMS_KEY operation
      else STRUKTOS_CLAIMS_KEY grp)"

text \<open>
  Steps 4 to 8 of the merge rule as a decision on the two effective requirements and the
  principal, with the guard's own two checks: an empty role list is no requirement;
  without any requirement the request is allowed; otherwise a principal is needed, the
  roles are checked first and the claims second.
\<close>

definition decide ::
  "string list option \<Rightarrow> RequiredClaims option \<Rightarrow> User option \<Rightarrow> HttpException + bool" where
  "decide roleRequirement claimRequirement usr =
     (let roleSet = (case roleRequirement of
                       None \<Rightarrow> None
                     | Some rs \<Rightarrow> if rs = [] then None else Some rs)
      in
        if roleSet = None \<and> claimRequirement = None then Inr True
        else
          (case usr of
             None \<Rightarrow> Inl (UnauthorizedException ''Authentication required'')
           | Some u \<Rightarrow>
               (case (case roleSet of
                        None \<Rightarrow> None
                      | Some rs \<Rightarrow> if checkRoles u rs then None else Some rs) of
                  Some rs \<Rightarrow> Inl (ForbiddenException (''Required roles: '' @ join '', '' rs))
                | None \<Rightarrow>
                    (case claimRequirement of
                       None \<Rightarrow> Inr True
                     | Some rc \<Rightarrow>
                         if checkClaims u rc then Inr True
                         else Inl (ForbiddenException
                                     (''Required claims: '' @ claimsStr rc))))))"

text \<open>The roles and claims a principal holds; a missing list holds none.\<close>

definition rolesOf :: "User \<Rightarrow> string list" where
  "rolesOf u = (case user_roles u of None \<Rightarrow> [] | Some rs \<Rightarrow> rs)"

definition claimsOf :: "User \<Rightarrow> Claim list" where
  "claimsOf u = (case user_claims u of None \<Rightarrow> [] | Some cs \<Rightarrow> cs)"

text \<open>
  A claim requirement is satisfied when the principal holds a claim of its type and, when
  the requirement names a value, of exactly that value.
\<close>

definition satisfied :: "User \<Rightarrow> ClaimRequirement \<Rightarrow> bool" where
  "satisfied u r =
     list_ex (\<lambda>c. claim_type c = req_type r \<and>
                  (case req_value r of None \<Rightarrow> True | Some v \<Rightarrow> claim_value c = v))
       (claimsOf u)"

definition requirementsOf :: "RequiredClaims \<Rightarrow> ClaimRequirement list" where
  "requirementsOf rc = (case rc of Multiple rs \<Rightarrow> rs | Single r \<Rightarrow> [r])"

text \<open>
  A bearer credential: the header is \<^verbatim>\<open>Bearer\<close>, one space, and a token without a
  space. \<open>authorizationHeader\<close> is \<^verbatim>\<open>request.headers?.authorization\<close>.
\<close>

definition bearerToken :: "string \<Rightarrow> string option" where
  "bearerToken h =
     (if take 7 h = ''Bearer '' \<and> CHR '' '' \<notin> set (drop 7 h) then Some (drop 7 h) else None)"

definition authorizationHeader :: "World \<Rightarrow> string option" where
  "authorizationHeader w = Option.bind (headers (request w)) authorization"

section \<open>Example values\<close>

text \<open>
  The two users and the token table of the example application's mock provider (an
  unknown token resolves to \<^verbatim>\<open>null\<close>), a request that carries a token, and the
  worlds and options the examples below run in.
\<close>

definition adminUser :: User where
  "adminUser =
     \<lparr>user_id = ''user-1'', username = ''admin'', email = ''admin@example.com'',
      user_roles = Some [''Admin'', ''User''],
      user_claims = Some [\<lparr>claim_type = ''permission'', claim_value = ''write:documents''\<rparr>,
                          \<lparr>claim_type = ''department'', claim_value = ''engineering''\<rparr>]\<rparr>"

definition johndoe :: User where
  "johndoe =
     \<lparr>user_id = ''user-2'', username = ''johndoe'', email = ''john@example.com'',
      user_roles = Some [''User''],
      user_claims = Some [\<lparr>claim_type = ''permission'', claim_value = ''read:documents''\<rparr>]\<rparr>"

definition guest :: User where
  "guest =
     \<lparr>user_id = ''user-3'', username = ''guest'', email = ''guest@example.com'',
      user_roles = Some [''User''], user_claims = Some []\<rparr>"

definition MockAuthService :: AuthService where
  "MockAuthService =
     \<lparr>validateToken = (\<lambda>token.
        if token = ''admin-token'' then Resolves (Some adminUser)
        else if token = ''user-token'' then Resolves (Some johndoe)
        else Resolves None)\<rparr>"

definition mockGuard :: StruktosAuthGuard where
  "mockGuard = \<lparr>authService = Some MockAuthService\<rparr>"

text \<open>
  A provider that is not the example's: its \<^verbatim>\<open>validateToken\<close> throws for every token
  but the admin's, as a provider does that verifies signatures and expiry.
\<close>

definition rejectingAuthService :: AuthService where
  "rejectingAuthService =
     \<lparr>validateToken = (\<lambda>token.
        if token = ''admin-token'' then Resolves (Some adminUser) else Rejects)\<rparr>"

definition rejectingGuard :: StruktosAuthGuard where
  "rejectingGuard = \<lparr>authService = Some rejectingAuthService\<rparr>"

definition requestWith :: "string option \<Rightarrow> User option \<Rightarrow> Request" where
  "requestWith header usr =
     \<lparr>req_id = None, req_method = Some ''GET'', originalUrl = Some ''/users/admin'',
      req_url = Some ''/users/admin'', req_ip = Some ''127.0.0.1'', remoteAddress = None,
      headers = Some \<lparr>authorization = header, user_agent = Some ''curl''\<rparr>,
      req_user = usr\<rparr>"

definition exampleOptions :: StruktosCoreModuleOptions where
  "exampleOptions =
     \<lparr>generateTraceId = (\<lambda>_. ''trace-1''), enableCancellation = True,
      extractUser = req_user\<rparr>"

text \<open>
  The world a guard finds after the middleware has run for a request: the scope's context
  is current.
\<close>

definition worldAfterUse :: "Request \<Rightarrow> World" where
  "worldAfterUse req =
     \<lparr>current = scope (use exampleOptions req 0), request = req, validated = []\<rparr>"

text \<open>The world of a guard that runs outside any scope.\<close>

definition worldOutsideScope :: "Request \<Rightarrow> World" where
  "worldOutsideScope req = \<lparr>current = None, request = req, validated = []\<rparr>"

text \<open>
  Routes: an admin-only handler in a controller open to users, an admin-only handler, a
  handler for admins and moderators, a handler with an empty list of required claims, a
  route without any declaration, and a public handler in an admin-only controller.
\<close>

definition adminInUserController :: ExecutionContext where
  "adminInUserController =
     \<lparr>getHandler = decorated [Roles [''Admin'']], getClass = decorated [Roles [''User'']]\<rparr>"

definition adminRoute :: ExecutionContext where
  "adminRoute = \<lparr>getHandler = decorated [Roles [''Admin'']], getClass = no_metadata\<rparr>"

definition moderatorRoute :: ExecutionContext where
  "moderatorRoute =
     \<lparr>getHandler = decorated [Roles [''Admin'', ''Moderator'']], getClass = no_metadata\<rparr>"

definition emptyClaimsRoute :: ExecutionContext where
  "emptyClaimsRoute = \<lparr>getHandler = decorated [RequireClaims []], getClass = no_metadata\<rparr>"

text \<open>
  An undecorated handler in an admin-only controller, and a handler for users in a
  controller that requires the engineering department.
\<close>

definition plainInAdminController :: ExecutionContext where
  "plainInAdminController =
     \<lparr>getHandler = no_metadata, getClass = decorated [Roles [''Admin'']]\<rparr>"

definition userInEngineeringController :: ExecutionContext where
  "userInEngineeringController =
     \<lparr>getHandler = decorated [Roles [''User'']],
      getClass = decorated [RequireClaim ''department'' (Some ''engineering'')]\<rparr>"

definition plainRoute :: ExecutionContext where
  "plainRoute = \<lparr>getHandler = no_metadata, getClass = no_metadata\<rparr>"

section \<open>Auxiliary facts\<close>

lemma decorated_public:
  "STRUKTOS_PUBLIC_KEY (decorated ds) = (if Public \<in> set ds then Some True else None)"
proof (induction ds)
  case Nil
  show ?case by (simp add: decorated_def no_metadata_def)
next
  case (Cons d ds)
  then show ?case by (cases d) (auto simp: decorated_def)
qed

lemma storeUserInContext_idem:
  "storeUserInContext u (storeUserInContext u w) = storeUserInContext u w"
  by (simp add: storeUserInContext_def split: option.splits)

lemma storeUserInContext_validated: "validated (storeUserInContext u w) = validated w"
  by (simp add: storeUserInContext_def)

lemma split_on_ne: "split_on sep s \<noteq> []"
  by (induction s) (auto split: list.splits)

lemma split_on_single: "(split_on sep s = [a]) = (s = a \<and> sep \<notin> set a)"
proof (induction s arbitrary: a)
  case Nil
  show ?case by auto
next
  case (Cons c cs)
  show ?case
  proof (cases "c = sep")
    case True
    then show ?thesis using split_on_ne[of sep cs] by auto
  next
    case False
    then show ?thesis using Cons[of "tl a"] split_on_ne[of sep cs]
      by (cases a) (auto split: list.splits)
  qed
qed

lemma split_on_pair:
  "(split_on sep s = [a, b]) = (s = a @ sep # b \<and> sep \<notin> set a \<and> sep \<notin> set b)"
proof (induction s arbitrary: a)
  case Nil
  show ?case by auto
next
  case (Cons c cs)
  show ?case
  proof (cases "c = sep")
    case True
    then show ?thesis by (cases a) (auto simp: split_on_single)
  next
    case False
    then show ?thesis using Cons[of "tl a"] split_on_ne[of sep cs]
      by (cases a) (auto split: list.splits)
  qed
qed

lemma length_two: "(length xs = 2) = (\<exists>a b. xs = [a, b])"
  by (cases xs; cases "tl xs") auto

lemma bearer_split:
  assumes "bearerToken h = Some t"
  shows "split_on CHR '' '' h = [''Bearer'', t]"
proof -
  from assms have t: "take 7 h = ''Bearer ''" and d: "CHR '' '' \<notin> set (drop 7 h)"
    and e: "t = drop 7 h"
    by (auto simp: bearerToken_def split: if_splits)
  have "h = take 7 h @ drop 7 h" by simp
  then have "h = ''Bearer'' @ CHR '' '' # drop 7 h" using t by simp
  then have "split_on CHR '' '' h = [''Bearer'', drop 7 h]"
    using d by (subst split_on_pair) simp
  then show ?thesis using e by simp
qed

lemma bearer_parts:
  "(length (split_on CHR '' '' h) = 2 \<and> split_on CHR '' '' h ! 0 = ''Bearer'')
     = (bearerToken h \<noteq> None)"
proof
  assume "length (split_on CHR '' '' h) = 2 \<and> split_on CHR '' '' h ! 0 = ''Bearer''"
  then obtain b where "split_on CHR '' '' h = [''Bearer'', b]"
    by (auto simp: length_two)
  then have "h = ''Bearer'' @ CHR '' '' # b \<and> CHR '' '' \<notin> set b"
    by (simp add: split_on_pair)
  then show "bearerToken h \<noteq> None"
    by (simp add: bearerToken_def)
next
  assume "bearerToken h \<noteq> None"
  then obtain t where "bearerToken h = Some t" by auto
  then show "length (split_on CHR '' '' h) = 2 \<and> split_on CHR '' '' h ! 0 = ''Bearer''"
    by (simp add: bearer_split)
qed

lemma bearerToken_Nil: "bearerToken [] = None"
  by (simp add: bearerToken_def)

lemma authenticateRequest_eq:
  "authenticateRequest g w =
     (case authService g of
        None \<Rightarrow> (None, w)
      | Some svc \<Rightarrow>
          (case Option.bind (authorizationHeader w) bearerToken of
             None \<Rightarrow> (None, w)
           | Some token \<Rightarrow>
               (case validateToken svc token of Resolves u \<Rightarrow> u | Rejects \<Rightarrow> None,
                w\<lparr>validated := validated w @ [token]\<rparr>)))"
proof (cases "authService g")
  case None
  then show ?thesis by (simp add: authenticateRequest_def)
next
  case (Some svc)
  show ?thesis
  proof (cases "authorizationHeader w")
    case None
    then show ?thesis using Some
      by (simp add: authenticateRequest_def authorizationHeader_def)
  next
    case h: (Some h)
    then have h': "Option.bind (headers (request w)) authorization = Some h"
      by (simp add: authorizationHeader_def)
    show ?thesis
    proof (cases "bearerToken h")
      case None
      then have "length (split_on CHR '' '' h) \<noteq> 2 \<or> split_on CHR '' '' h ! 0 \<noteq> ''Bearer''"
        using bearer_parts[of h] by blast
      then show ?thesis using Some h None
        by (auto simp: authenticateRequest_def h' Let_def)
    next
      case t: (Some t)
      have ne: "h \<noteq> []" using t bearerToken_Nil by auto
      show ?thesis using Some t ne bearer_split[OF t]
        by (simp add: authenticateRequest_def h h' Let_def split: TokenResult.splits)
    qed
  qed
qed

lemma resolveUser_attached:
  "getUserFromContext w \<noteq> None \<or> req_user (request w) \<noteq> None \<Longrightarrow>
   resolveUser g w =
     (case getUserFromContext w of Some u \<Rightarrow> Some u | None \<Rightarrow> req_user (request w), w)"
  by (auto simp: resolveUser_def Let_def split: option.splits)

lemma resolveUser_validated:
  "validated (snd (resolveUser g w)) \<noteq> validated w \<Longrightarrow>
   getUserFromContext w = None \<and> req_user (request w) = None \<and>
   (\<exists>token. Option.bind (authorizationHeader w) bearerToken = Some token
      \<and> validated (snd (resolveUser g w)) = validated w @ [token])"
  by (auto simp: resolveUser_def Let_def authenticateRequest_eq split: option.splits if_splits)

lemma resolveUser_current: "current (snd (resolveUser g w)) = current w"
  by (auto simp: resolveUser_def Let_def authenticateRequest_eq split: option.splits)

lemma canActivate_validated:
  "validated (snd (canActivate g ec w)) =
     (if isPublic ec = Some True then validated w else validated (snd (resolveUser g w)))"
  by (cases "resolveUser g w")
     (auto simp: canActivate_def Let_def storeUserInContext_validated split: option.splits)

lemma canActivate_not_public:
  "isPublic ec \<noteq> Some True \<Longrightarrow> resolveUser g w = (usr, w1) \<Longrightarrow>
   canActivate g ec w =
     (if authRequired ec then
          (case usr of
             None \<Rightarrow> (Inl (UnauthorizedException ''Authentication required''), w1)
           | Some u \<Rightarrow>
               let w2 = storeUserInContext u w1;
                   missingRoles =
                     (case requiredRoles ec of
                        None \<Rightarrow> None
                      | Some rs \<Rightarrow>
                          if length rs > 0 \<and> \<not> checkRoles u rs then Some rs else None)
               in
                 (case missingRoles of
                    Some rs \<Rightarrow>
                      (Inl (ForbiddenException (''Required roles: '' @ join '', '' rs)), w2)
                  | None \<Rightarrow>
                      (case requiredClaims ec of
                         None \<Rightarrow> (Inr True, storeUserInContext u w2)
                       | Some rc \<Rightarrow>
                           if \<not> checkClaims u rc
                           then (Inl (ForbiddenException
                                        (''Required claims: '' @ claimsStr rc)), w2)
                           else (Inr True, storeUserInContext u w2))))
        else
          (case usr of
             None \<Rightarrow> (Inr True, w1)
           | Some u \<Rightarrow> (Inr True, storeUserInContext u w1)))"
  by (simp add: canActivate_def)

lemma canActivate_cong:
  "isPublic ec' = isPublic ec \<Longrightarrow> requiredRoles ec' = requiredRoles ec \<Longrightarrow>
   requiredClaims ec' = requiredClaims ec \<Longrightarrow> canActivate g ec' w = canActivate g ec w"
  unfolding canActivate_def authRequired_def rolesRequired_def by (simp only:)

lemma checkRoles_iff: "checkRoles u rs = (set rs \<inter> set (rolesOf u) \<noteq> {})"
  by (auto simp: checkRoles_def rolesOf_def list_ex_iff split: option.splits)

lemma checkClaims_eq:
  "checkClaims u rc = (claimsOf u \<noteq> [] \<and> list_all (satisfied u) (requirementsOf rc))"
proof (cases "user_claims u")
  case None
  then show ?thesis by (simp add: checkClaims_def claimsOf_def)
next
  case (Some cs)
  have inner: "list_ex (\<lambda>claim.
                if claim_type claim \<noteq> req_type r then False
                else (case req_value r of
                        Some v \<Rightarrow> claim_value claim = v
                      | None \<Rightarrow> True)) cs = satisfied u r" for r
    using Some by (cases "req_value r") (auto simp: satisfied_def claimsOf_def list_ex_iff)
  show ?thesis using Some
    by (simp add: checkClaims_def claimsOf_def requirementsOf_def inner)
qed


lemma fold_invoke_destroyed:
  "destroyed (fold invoke ls s) = destroyed s + count_list ls OnFinish"
proof (induction ls arbitrary: s)
  case Nil
  show ?case by simp
next
  case (Cons l ls)
  show ?case by (cases l) (simp_all add: Cons)
qed

lemma fold_invoke_finishListeners:
  "finishListeners (fold invoke ls s) = finishListeners s"
proof (induction ls arbitrary: s)
  case Nil
  show ?case by simp
next
  case (Cons l ls)
  show ?case by (cases l) (simp_all add: Cons)
qed

lemma removeListener_not_mem: "OnFinish \<notin> set ls \<Longrightarrow> OnFinish \<notin> set (removeListener l ls)"
  by (metis notin_set_remove1 removeListener_def set_rev)

lemma fold_invoke_requestListeners:
  "OnFinish \<notin> set (closeListeners s) \<and> OnFinish \<notin> set (abortedListeners s) \<Longrightarrow>
   OnFinish \<notin> set (closeListeners (fold invoke ls s))
     \<and> OnFinish \<notin> set (abortedListeners (fold invoke ls s))"
proof (induction ls arbitrary: s)
  case Nil
  then show ?case by simp
next
  case (Cons l ls)
  show ?case
  proof (cases l)
    case OnClose
    then show ?thesis using Cons.prems by (simp add: Cons.IH)
  next
    case RemoveOnClose
    then show ?thesis using Cons.prems
      by (simp add: Cons.IH removeListener_not_mem)
  next
    case OnFinish
    then show ?thesis using Cons.prems by (simp add: Cons.IH)
  qed
qed

lemma emit_wired:
  assumes "wired s"
  shows "wired (emit e s)
     \<and> destroyed (emit e s) = destroyed s + (if e = ResFinish then 1 else 0)"
proof -
  have ls: "count_list (listeners e s) OnFinish = (if e = ResFinish then 1 else 0)"
    using assms by (cases e) (auto simp: wired_def listeners_def count_list_0_iff)
  show ?thesis
    using assms fold_invoke_requestListeners[of s "listeners e s"] ls
    by (simp add: emit_def wired_def fold_invoke_destroyed fold_invoke_finishListeners)
qed

lemma deliver_wired:
  "wired s \<Longrightarrow> destroyed (deliver es s) = destroyed s + count_list es ResFinish"
proof (induction es arbitrary: s)
  case Nil
  show ?case by (simp add: deliver_def)
next
  case (Cons e es)
  have "destroyed (deliver es (emit e s)) = destroyed (emit e s) + count_list es ResFinish"
    using Cons.IH[of "emit e s"] emit_wired[OF Cons.prems] by simp
  then show ?case
    using emit_wired[OF Cons.prems, of e] by (simp add: deliver_def)
qed

lemma use_wired: "wired (use options req now)"
  by (simp add: use_def run_def wired_def Let_def)

lemma use_destroyed: "destroyed (use options req now) = 0"
  by (simp add: use_def run_def Let_def)

section \<open>Merging the two levels\<close>

text \<open>
  Claim C1. For every operation and enclosing group, the guard resolves the required roles
  and the required claims category by category: the operation-level declaration when there
  is one, else the group-level one. The guard decides, and leaves the world, exactly as if
  the operation itself declared the two effective requirements and the group none; on a
  route that is not public its decision is the merge rule's decision on the two effective
  requirements and the principal. So a group-level declaration of a category that the
  operation declares itself has no influence. In particular, when the operation declares
  the role \<open>Admin\<close> and the group the role \<open>User\<close>, a principal whose only role is
  \<open>User\<close> is denied.
\<close>

theorem effective_requirement_per_category:
  "requiredRoles ec = effectiveRoleRequirement (getHandler ec) (getClass ec)
   \<and> requiredClaims ec = effectiveClaimRequirement (getHandler ec) (getClass ec)
   \<and> canActivate g ec w =
       canActivate g
         \<lparr>getHandler = (getHandler ec)
            \<lparr>STRUKTOS_ROLES_KEY := effectiveRoleRequirement (getHandler ec) (getClass ec),
             STRUKTOS_CLAIMS_KEY := effectiveClaimRequirement (getHandler ec) (getClass ec)\<rparr>,
          getClass = (getClass ec)
            \<lparr>STRUKTOS_ROLES_KEY := None, STRUKTOS_CLAIMS_KEY := None\<rparr>\<rparr> w
   \<and> (isPublic ec \<noteq> Some True \<longrightarrow>
        fst (canActivate g ec w) =
          decide (effectiveRoleRequirement (getHandler ec) (getClass ec))
                 (effectiveClaimRequirement (getHandler ec) (getClass ec))
                 (fst (resolveUser g w)))
   \<and> (STRUKTOS_ROLES_KEY (getHandler ec) \<noteq> None \<longrightarrow>
        canActivate g (ec\<lparr>getClass := (getClass ec)\<lparr>STRUKTOS_ROLES_KEY := groupRoles\<rparr>\<rparr>) w
          = canActivate g ec w)
   \<and> (STRUKTOS_CLAIMS_KEY (getHandler ec) \<noteq> None \<longrightarrow>
        canActivate g (ec\<lparr>getClass := (getClass ec)\<lparr>STRUKTOS_CLAIMS_KEY := groupClaims\<rparr>\<rparr>) w
          = canActivate g ec w)
   \<and> (isPublic ec \<noteq> Some True
        \<and> STRUKTOS_ROLES_KEY (getHandler ec) = Some [''Admin'']
        \<and> STRUKTOS_ROLES_KEY (getClass ec) = Some [''User'']
        \<and> fst (resolveUser g w) = Some u \<and> user_roles u = Some [''User''] \<longrightarrow>
        fst (canActivate g ec w) = Inl (ForbiddenException ''Required roles: Admin''))"
proof -
  have roles: "requiredRoles ec = effectiveRoleRequirement (getHandler ec) (getClass ec)"
    by (auto simp: requiredRoles_def effectiveRoleRequirement_def split: option.splits)
  have claims: "requiredClaims ec = effectiveClaimRequirement (getHandler ec) (getClass ec)"
    by (auto simp: requiredClaims_def effectiveClaimRequirement_def split: option.splits)
  have merged: "canActivate g ec w =
       canActivate g
         \<lparr>getHandler = (getHandler ec)
            \<lparr>STRUKTOS_ROLES_KEY := effectiveRoleRequirement (getHandler ec) (getClass ec),
             STRUKTOS_CLAIMS_KEY := effectiveClaimRequirement (getHandler ec) (getClass ec)\<rparr>,
          getClass = (getClass ec)
            \<lparr>STRUKTOS_ROLES_KEY := None, STRUKTOS_CLAIMS_KEY := None\<rparr>\<rparr> w"
    by (rule sym, intro canActivate_cong)
       (auto simp: isPublic_def requiredRoles_def requiredClaims_def
          effectiveRoleRequirement_def effectiveClaimRequirement_def split: option.splits)
  have decision: "fst (canActivate g ec w) =
          decide (effectiveRoleRequirement (getHandler ec) (getClass ec))
                 (effectiveClaimRequirement (getHandler ec) (getClass ec))
                 (fst (resolveUser g w))"
    if np: "isPublic ec \<noteq> Some True"
  proof -
    obtain usr w1 where r: "resolveUser g w = (usr, w1)"
      by (cases "resolveUser g w") auto
    show ?thesis
      unfolding roles[symmetric] claims[symmetric]
      by (auto simp: canActivate_not_public[OF np r] r decide_def authRequired_def
          rolesRequired_def Let_def split: option.splits)
  qed
  have group_roles:
    "canActivate g (ec\<lparr>getClass := (getClass ec)\<lparr>STRUKTOS_ROLES_KEY := groupRoles\<rparr>\<rparr>) w
       = canActivate g ec w"
    if "STRUKTOS_ROLES_KEY (getHandler ec) \<noteq> None"
    using that
    by (intro canActivate_cong)
       (auto simp: isPublic_def requiredRoles_def requiredClaims_def split: option.splits)
  have group_claims:
    "canActivate g (ec\<lparr>getClass := (getClass ec)\<lparr>STRUKTOS_CLAIMS_KEY := groupClaims\<rparr>\<rparr>) w
       = canActivate g ec w"
    if "STRUKTOS_CLAIMS_KEY (getHandler ec) \<noteq> None"
    using that
    by (intro canActivate_cong)
       (auto simp: isPublic_def requiredRoles_def requiredClaims_def split: option.splits)
  have denied: "fst (canActivate g ec w) = Inl (ForbiddenException ''Required roles: Admin'')"
    if a: "isPublic ec \<noteq> Some True
        \<and> STRUKTOS_ROLES_KEY (getHandler ec) = Some [''Admin'']
        \<and> STRUKTOS_ROLES_KEY (getClass ec) = Some [''User'']
        \<and> fst (resolveUser g w) = Some u \<and> user_roles u = Some [''User'']"
  proof -
    obtain w1 where r: "resolveUser g w = (Some u, w1)"
      using a by (cases "resolveUser g w") auto
    have rr: "requiredRoles ec = Some [''Admin'']"
      using a by (simp add: requiredRoles_def)
    have "\<not> checkRoles u [''Admin'']"
      using a by (simp add: checkRoles_def)
    then show ?thesis
      using a rr by (simp add: canActivate_not_public[OF _ r] authRequired_def rolesRequired_def)
  qed
  show ?thesis
    using roles claims merged decision group_roles group_claims denied by blast
qed

theorem effective_requirement_per_category_witness:
  "isPublic adminInUserController \<noteq> Some True
   \<and> STRUKTOS_ROLES_KEY (getHandler adminInUserController) = Some [''Admin'']
   \<and> STRUKTOS_ROLES_KEY (getClass adminInUserController) = Some [''User'']
   \<and> fst (resolveUser mockGuard
            (worldOutsideScope (requestWith (Some ''Bearer user-token'') None))) = Some johndoe
   \<and> user_roles johndoe = Some [''User'']
   \<and> fst (canActivate mockGuard adminInUserController
            (worldOutsideScope (requestWith (Some ''Bearer user-token'') None)))
       = Inl (ForbiddenException ''Required roles: Admin'')
   \<and> isPublic plainInAdminController \<noteq> Some True
   \<and> fst (canActivate mockGuard plainInAdminController
            (worldOutsideScope (requestWith None None)))
       = Inl (UnauthorizedException ''Authentication required'')
   \<and> isPublic userInEngineeringController \<noteq> Some True
   \<and> fst (canActivate mockGuard userInEngineeringController
            (worldOutsideScope (requestWith (Some ''Bearer user-token'') None)))
       = Inl (ForbiddenException ''Required claims: department:engineering'')"
proof -
  let ?w = "worldOutsideScope (requestWith (Some ''Bearer user-token'') None)"
  let ?anonymous = "worldOutsideScope (requestWith None None)"
  have h: "isPublic adminInUserController \<noteq> Some True
     \<and> STRUKTOS_ROLES_KEY (getHandler adminInUserController) = Some [''Admin'']
     \<and> STRUKTOS_ROLES_KEY (getClass adminInUserController) = Some [''User'']
     \<and> fst (resolveUser mockGuard ?w) = Some johndoe
     \<and> user_roles johndoe = Some [''User'']"
    by (simp add: isPublic_def adminInUserController_def decorated_def no_metadata_def
        resolveUser_def getUserFromContext_def worldOutsideScope_def requestWith_def
        mockGuard_def authenticateRequest_def MockAuthService_def johndoe_def Let_def)
  have first: "fst (canActivate mockGuard adminInUserController ?w)
       = Inl (ForbiddenException ''Required roles: Admin'')"
    using h effective_requirement_per_category
            [where ec = adminInUserController and g = mockGuard and u = johndoe and w = ?w]
    by blast
  have p: "isPublic plainInAdminController \<noteq> Some True
     \<and> fst (resolveUser mockGuard ?anonymous) = None"
    by (simp add: isPublic_def plainInAdminController_def decorated_def no_metadata_def
        resolveUser_def getUserFromContext_def worldOutsideScope_def requestWith_def
        mockGuard_def authenticateRequest_def Let_def)
  have "fst (canActivate mockGuard plainInAdminController ?anonymous)
       = decide (effectiveRoleRequirement (getHandler plainInAdminController)
                   (getClass plainInAdminController))
                (effectiveClaimRequirement (getHandler plainInAdminController)
                   (getClass plainInAdminController))
                (fst (resolveUser mockGuard ?anonymous))"
    using p effective_requirement_per_category
            [where ec = plainInAdminController and g = mockGuard and w = ?anonymous]
    by blast
  then have second: "fst (canActivate mockGuard plainInAdminController ?anonymous)
       = Inl (UnauthorizedException ''Authentication required'')"
    using p by (simp add: decide_def effectiveRoleRequirement_def
        effectiveClaimRequirement_def plainInAdminController_def decorated_def
        no_metadata_def)
  have q: "isPublic userInEngineeringController \<noteq> Some True"
    by (simp add: isPublic_def userInEngineeringController_def decorated_def
        no_metadata_def)
  have "fst (canActivate mockGuard userInEngineeringController ?w)
       = decide (effectiveRoleRequirement (getHandler userInEngineeringController)
                   (getClass userInEngineeringController))
                (effectiveClaimRequirement (getHandler userInEngineeringController)
                   (getClass userInEngineeringController))
                (fst (resolveUser mockGuard ?w))"
    using q effective_requirement_per_category
            [where ec = userInEngineeringController and g = mockGuard and w = ?w]
    by blast
  then have third: "fst (canActivate mockGuard userInEngineeringController ?w)
       = Inl (ForbiddenException ''Required claims: department:engineering'')"
    using h by (simp add: decide_def effectiveRoleRequirement_def
        effectiveClaimRequirement_def userInEngineeringController_def decorated_def
        no_metadata_def checkRoles_def checkClaims_def claimsStr_def claimStr_def
        johndoe_def)
  show ?thesis
    using h first p second q third by simp
qed

section \<open>The lifecycle callbacks\<close>

text \<open>
  Claim C2, as amended. The middleware registers the call of the destroyed callback as a
  listener of the response's \<^verbatim>\<open>finish\<close> event and nowhere else, without a one-shot
  flag. So for every request and every sequence of transport events, the callback has fired
  once for each \<^verbatim>\<open>finish\<close> event delivered: exactly once when the response finishes
  once, whatever disconnect events come before or after.
\<close>

theorem destroyed_once_per_finish:
  "destroyed (deliver es (use options req now)) = count_list es ResFinish"
  by (simp add: deliver_wired[OF use_wired] use_destroyed)

theorem destroyed_once_per_finish_witness:
  "destroyed (deliver [ReqAborted, ResFinish, ReqClose]
               (use exampleOptions (requestWith None None) 0)) = 1"
  using destroyed_once_per_finish
          [where es = "[ReqAborted, ResFinish, ReqClose]" and options = exampleOptions
             and req = "requestWith None None" and now = 0]
  by simp

text \<open>
  Claim C2 as stated fails: when the client disconnects before the response is complete,
  the request emits \<^verbatim>\<open>aborted\<close> and \<^verbatim>\<open>close\<close>, the response never emits
  \<^verbatim>\<open>finish\<close>, and the destroyed callback has not fired.
\<close>

theorem destroyed_not_called_on_disconnect:
  "destroyed (deliver [ReqAborted, ReqClose]
               (use exampleOptions (requestWith None None) 0)) = 0"
  by (simp add: deliver_def emit_def listeners_def use_def run_def exampleOptions_def Let_def)

section \<open>The claim check\<close>

text \<open>
  Claim C3. The claim says that the check succeeds exactly when every requirement of the
  sequence is satisfied, so that an empty sequence is satisfied by every principal. The
  code returns early for a principal without claims: for the user \<open>guest\<close>, who holds
  none, and the empty sequence, every requirement is satisfied and yet
  \<^verbatim>\<open>checkClaims\<close> is false and the guard throws Forbidden with a message that names no
  claim, while the claims-only guard of the same file allows the same request.
\<close>

theorem empty_claim_sequence_denied:
  "list_all (satisfied guest) (requirementsOf (Multiple []))
   \<and> \<not> checkClaims guest (Multiple [])
   \<and> fst (canActivate mockGuard emptyClaimsRoute
            (worldOutsideScope (requestWith None (Some guest))))
       = Inl (ForbiddenException ''Required claims: '')
   \<and> claimsGuard_canActivate emptyClaimsRoute
        (worldOutsideScope (requestWith None (Some guest))) = Inr True"
  by (simp add: requirementsOf_def checkClaims_def guest_def canActivate_def isPublic_def
      emptyClaimsRoute_def decorated_def no_metadata_def resolveUser_def
      getUserFromContext_def worldOutsideScope_def requestWith_def mockGuard_def
      authRequired_def rolesRequired_def requiredRoles_def requiredClaims_def claimsStr_def
      claimsGuard_canActivate_def getUser_def Let_def)

section \<open>Authentication\<close>

text \<open>
  Claim C4. On a route that is not public, whenever roles or claims are required and the
  guard finds no principal, it throws Unauthorized; and when a principal is already
  attached to the context or to the request, the provider's \<^verbatim>\<open>validateToken\<close> is not
  called.
\<close>

theorem unauthenticated_without_principal:
  "(isPublic ec \<noteq> Some True \<and> authRequired ec \<and> fst (resolveUser g w) = None \<longrightarrow>
      fst (canActivate g ec w) = Inl (UnauthorizedException ''Authentication required''))
   \<and> (getUserFromContext w' \<noteq> None \<or> req_user (request w') \<noteq> None \<longrightarrow>
        validated (snd (canActivate g ec w')) = validated w')"
proof -
  have missing:
    "fst (canActivate g ec w) = Inl (UnauthorizedException ''Authentication required'')"
    if a: "isPublic ec \<noteq> Some True \<and> authRequired ec \<and> fst (resolveUser g w) = None"
  proof -
    obtain w1 where "resolveUser g w = (None, w1)"
      using a by (cases "resolveUser g w") auto
    then show ?thesis
      using a by (simp add: canActivate_not_public)
  qed
  have attached: "validated (snd (canActivate g ec w')) = validated w'"
    if "getUserFromContext w' \<noteq> None \<or> req_user (request w') \<noteq> None"
    using that by (simp add: canActivate_validated resolveUser_attached)
  show ?thesis
    using missing attached by blast
qed

theorem unauthenticated_without_principal_witness:
  "isPublic adminRoute \<noteq> Some True \<and> authRequired adminRoute
   \<and> fst (resolveUser mockGuard (worldOutsideScope (requestWith None None))) = None
   \<and> fst (canActivate mockGuard adminRoute (worldOutsideScope (requestWith None None)))
       = Inl (UnauthorizedException ''Authentication required'')
   \<and> getUserFromContext
        (worldAfterUse (requestWith (Some ''Bearer admin-token'') (Some johndoe))) \<noteq> None
   \<and> validated (snd (canActivate mockGuard adminRoute
        (worldAfterUse (requestWith (Some ''Bearer admin-token'') (Some johndoe))))) = []"
proof -
  have h: "isPublic adminRoute \<noteq> Some True \<and> authRequired adminRoute
     \<and> fst (resolveUser mockGuard (worldOutsideScope (requestWith None None))) = None"
    by (simp add: isPublic_def authRequired_def rolesRequired_def requiredRoles_def
        adminRoute_def decorated_def no_metadata_def resolveUser_def getUserFromContext_def
        worldOutsideScope_def requestWith_def mockGuard_def authenticateRequest_def Let_def)
  have k: "getUserFromContext
        (worldAfterUse (requestWith (Some ''Bearer admin-token'') (Some johndoe))) \<noteq> None"
    by (simp add: getUserFromContext_def worldAfterUse_def use_def run_def
        exampleOptions_def requestWith_def Let_def)
  have v: "validated
        (worldAfterUse (requestWith (Some ''Bearer admin-token'') (Some johndoe))) = []"
    by (simp add: worldAfterUse_def)
  show ?thesis
    using h k v unauthenticated_without_principal
            [where ec = adminRoute and g = mockGuard
               and w = "worldOutsideScope (requestWith None None)"
               and w' = "worldAfterUse (requestWith (Some ''Bearer admin-token'') (Some johndoe))"]
    by simp
qed

section \<open>Public routes\<close>

text \<open>
  Claim C5. If the \<open>Public\<close> decorator is written on the handler or on the controller
  class, the guard returns true at once: it looks up no user, calls no provider and leaves
  the context and the request as they are, whatever else the two levels declare and whether
  or not a principal is present.
\<close>

theorem public_allows_unconditionally:
  assumes "Public \<in> set operationDecorators \<or> Public \<in> set groupDecorators"
  shows "canActivate g \<lparr>getHandler = decorated operationDecorators,
                         getClass = decorated groupDecorators\<rparr> w = (Inr True, w)"
  using assms by (auto simp: canActivate_def isPublic_def decorated_public)

theorem public_allows_unconditionally_witness:
  "Public \<in> set [Public]
   \<and> fst (resolveUser mockGuard (worldOutsideScope (requestWith None None))) = None
   \<and> canActivate mockGuard
        \<lparr>getHandler = decorated [Public], getClass = decorated [Roles [''Admin'']]\<rparr>
        (worldOutsideScope (requestWith None None))
       = (Inr True, worldOutsideScope (requestWith None None))"
proof -
  have h: "Public \<in> set [Public] \<or> Public \<in> set [Roles [''Admin'']]"
    by simp
  have n: "fst (resolveUser mockGuard (worldOutsideScope (requestWith None None))) = None"
    by (simp add: resolveUser_def getUserFromContext_def worldOutsideScope_def
        requestWith_def mockGuard_def authenticateRequest_def Let_def)
  show ?thesis
    using n public_allows_unconditionally [OF h, of mockGuard
            "worldOutsideScope (requestWith None None)"]
    by simp
qed

section \<open>The role check\<close>

text \<open>
  Claim C6. For every principal and every list of required roles, \<^verbatim>\<open>checkRoles\<close>
  succeeds exactly when the principal holds at least one of the listed roles. On a route
  that is not public, with a non-empty list of required roles and a principal present, the
  guard throws Forbidden with the required roles, joined by commas, in the message exactly
  when the principal holds none of them; when the principal holds one, the role requirement
  is passed and only the required claims, if any, decide.
\<close>

theorem role_check_or_semantics:
  "checkRoles u rs = (set (rolesOf u) \<inter> set rs \<noteq> {})
   \<and> (isPublic ec \<noteq> Some True \<and> requiredRoles ec = Some rs \<and> rs \<noteq> []
        \<and> fst (resolveUser g w) = Some u \<longrightarrow>
        ((fst (canActivate g ec w) =
            Inl (ForbiddenException (''Required roles: '' @ join '', '' rs)))
           = (set (rolesOf u) \<inter> set rs = {}))
        \<and> (set (rolesOf u) \<inter> set rs \<noteq> {} \<longrightarrow>
             fst (canActivate g ec w) =
               (case requiredClaims ec of
                  None \<Rightarrow> Inr True
                | Some rc \<Rightarrow>
                    if checkClaims u rc then Inr True
                    else Inl (ForbiddenException (''Required claims: '' @ claimsStr rc)))))"
proof -
  have sem: "checkRoles u rs = (set (rolesOf u) \<inter> set rs \<noteq> {})"
    by (auto simp: checkRoles_iff)
  have guard:
    "((fst (canActivate g ec w) =
            Inl (ForbiddenException (''Required roles: '' @ join '', '' rs)))
           = (set (rolesOf u) \<inter> set rs = {}))
        \<and> (set (rolesOf u) \<inter> set rs \<noteq> {} \<longrightarrow>
             fst (canActivate g ec w) =
               (case requiredClaims ec of
                  None \<Rightarrow> Inr True
                | Some rc \<Rightarrow>
                    if checkClaims u rc then Inr True
                    else Inl (ForbiddenException (''Required claims: '' @ claimsStr rc))))"
    if a: "isPublic ec \<noteq> Some True \<and> requiredRoles ec = Some rs \<and> rs \<noteq> []
        \<and> fst (resolveUser g w) = Some u"
  proof (cases "set (rolesOf u) \<inter> set rs = {}")
    case True
    obtain w1 where r: "resolveUser g w = (Some u, w1)"
      using a by (cases "resolveUser g w") auto
    have "\<not> checkRoles u rs" using True by (simp add: sem)
    then have "fst (canActivate g ec w) =
            Inl (ForbiddenException (''Required roles: '' @ join '', '' rs))"
      using a by (simp add: canActivate_not_public[OF _ r] authRequired_def rolesRequired_def)
    then show ?thesis using True by simp
  next
    case False
    obtain w1 where r: "resolveUser g w = (Some u, w1)"
      using a by (cases "resolveUser g w") auto
    have ok: "checkRoles u rs" using False by (simp add: sem)
    have passed: "fst (canActivate g ec w) =
               (case requiredClaims ec of
                  None \<Rightarrow> Inr True
                | Some rc \<Rightarrow>
                    if checkClaims u rc then Inr True
                    else Inl (ForbiddenException (''Required claims: '' @ claimsStr rc)))"
      using a ok
      by (simp add: canActivate_not_public[OF _ r] authRequired_def rolesRequired_def
          split: option.splits)
    have "fst (canActivate g ec w)
        \<noteq> Inl (ForbiddenException (''Required roles: '' @ join '', '' rs))"
      unfolding passed by (simp split: option.splits)
    then show ?thesis using False passed by simp
  qed
  show ?thesis
    using sem guard by blast
qed

theorem role_check_or_semantics_witness:
  "isPublic moderatorRoute \<noteq> Some True
   \<and> requiredRoles moderatorRoute = Some [''Admin'', ''Moderator'']
   \<and> fst (resolveUser mockGuard
            (worldOutsideScope (requestWith (Some ''Bearer user-token'') None))) = Some johndoe
   \<and> set (rolesOf johndoe) \<inter> set [''Admin'', ''Moderator''] = {}
   \<and> \<not> checkRoles johndoe [''Admin'', ''Moderator'']
   \<and> fst (canActivate mockGuard moderatorRoute
            (worldOutsideScope (requestWith (Some ''Bearer user-token'') None)))
       = Inl (ForbiddenException ''Required roles: Admin, Moderator'')
   \<and> fst (resolveUser mockGuard
            (worldOutsideScope (requestWith (Some ''Bearer admin-token'') None))) = Some adminUser
   \<and> set (rolesOf adminUser) \<inter> set [''Admin'', ''Moderator''] \<noteq> {}
   \<and> fst (canActivate mockGuard moderatorRoute
            (worldOutsideScope (requestWith (Some ''Bearer admin-token'') None)))
       = Inr True"
proof -
  let ?w = "worldOutsideScope (requestWith (Some ''Bearer user-token'') None)"
  let ?admin = "worldOutsideScope (requestWith (Some ''Bearer admin-token'') None)"
  have h: "isPublic moderatorRoute \<noteq> Some True
     \<and> requiredRoles moderatorRoute = Some [''Admin'', ''Moderator'']
     \<and> [''Admin'', ''Moderator''] \<noteq> []
     \<and> fst (resolveUser mockGuard ?w) = Some johndoe"
    by (simp add: isPublic_def requiredRoles_def moderatorRoute_def decorated_def
        no_metadata_def resolveUser_def getUserFromContext_def worldOutsideScope_def
        requestWith_def mockGuard_def authenticateRequest_def MockAuthService_def Let_def)
  have d: "set (rolesOf johndoe) \<inter> set [''Admin'', ''Moderator''] = {}"
    by (simp add: johndoe_def rolesOf_def)
  have k: "fst (resolveUser mockGuard ?admin) = Some adminUser"
    by (simp add: resolveUser_def getUserFromContext_def worldOutsideScope_def
        requestWith_def mockGuard_def authenticateRequest_def MockAuthService_def Let_def)
  have i: "set (rolesOf adminUser) \<inter> set [''Admin'', ''Moderator''] \<noteq> {}"
    by (simp add: adminUser_def rolesOf_def)
  have c: "requiredClaims moderatorRoute = None"
    by (simp add: requiredClaims_def moderatorRoute_def decorated_def no_metadata_def)
  have denied: "\<not> checkRoles johndoe [''Admin'', ''Moderator'']
     \<and> fst (canActivate mockGuard moderatorRoute ?w)
         = Inl (ForbiddenException ''Required roles: Admin, Moderator'')"
    using h d role_check_or_semantics
            [where ec = moderatorRoute and g = mockGuard and u = johndoe
               and rs = "[''Admin'', ''Moderator'']" and w = ?w]
    by simp
  have allowed: "fst (canActivate mockGuard moderatorRoute ?admin) = Inr True"
    using h k i c role_check_or_semantics
            [where ec = moderatorRoute and g = mockGuard and u = adminUser
               and rs = "[''Admin'', ''Moderator'']" and w = ?admin]
    by simp
  show ?thesis
    using h d k i denied allowed by simp
qed

section \<open>Routes without requirements\<close>

text \<open>
  Claim C7. When neither roles nor claims are required, the guard allows the request
  whether or not a principal is present. If the route is not public, a principal is
  present and the guard runs inside a scope, the principal is written to the context, so
  that afterwards the context's \<open>user\<close>, \<open>userId\<close> and \<open>roles\<close> are the principal,
  its id and its roles.
\<close>

theorem no_requirement_allows_and_attaches:
  "(\<not> authRequired ec \<longrightarrow> fst (canActivate g ec w) = Inr True)
   \<and> (\<not> authRequired ec \<and> isPublic ec \<noteq> Some True
        \<and> fst (resolveUser g w) = Some u \<and> current w = Some c \<longrightarrow>
        (\<exists>c'. current (snd (canActivate g ec w)) = Some c'
           \<and> user (ctx_data c') = Some u
           \<and> UserId (Some c') = Some (user_id u)
           \<and> Ctx (Some ''roles'') (Some c') = Some (VStrings (rolesOf u))))"
proof -
  have allowed: "fst (canActivate g ec w) = Inr True" if "\<not> authRequired ec"
    using that
    by (cases "resolveUser g w") (auto simp: canActivate_def split: option.splits)
  have stored: "\<exists>c'. current (snd (canActivate g ec w)) = Some c'
           \<and> user (ctx_data c') = Some u
           \<and> UserId (Some c') = Some (user_id u)
           \<and> Ctx (Some ''roles'') (Some c') = Some (VStrings (rolesOf u))"
    if a: "\<not> authRequired ec \<and> isPublic ec \<noteq> Some True
        \<and> fst (resolveUser g w) = Some u \<and> current w = Some c"
  proof -
    obtain w1 where r: "resolveUser g w = (Some u, w1)"
      using a by (cases "resolveUser g w") auto
    have "current w1 = Some c"
      using resolveUser_current[of g w] r a by simp
    then show ?thesis
      using a by (simp add: canActivate_not_public[OF _ r] storeUserInContext_def rolesOf_def
          UserId_def Ctx_def context_get_def)
  qed
  show ?thesis
    using allowed stored by blast
qed

theorem no_requirement_allows_and_attaches_witness:
  "\<not> authRequired plainRoute \<and> isPublic plainRoute \<noteq> Some True
   \<and> fst (resolveUser mockGuard
            (worldAfterUse (requestWith (Some ''Bearer user-token'') None))) = Some johndoe
   \<and> current (worldAfterUse (requestWith (Some ''Bearer user-token'') None)) \<noteq> None
   \<and> fst (canActivate mockGuard plainRoute
            (worldAfterUse (requestWith (Some ''Bearer user-token'') None))) = Inr True
   \<and> UserId (current (snd (canActivate mockGuard plainRoute
               (worldAfterUse (requestWith (Some ''Bearer user-token'') None)))))
       = Some ''user-2''
   \<and> Ctx (Some ''roles'') (current (snd (canActivate mockGuard plainRoute
               (worldAfterUse (requestWith (Some ''Bearer user-token'') None)))))
       = Some (VStrings [''User''])"
proof -
  obtain c where c: "current (worldAfterUse (requestWith (Some ''Bearer user-token'') None))
      = Some c"
    by (simp add: worldAfterUse_def use_def run_def Let_def)
  have h: "\<not> authRequired plainRoute \<and> isPublic plainRoute \<noteq> Some True
     \<and> fst (resolveUser mockGuard
            (worldAfterUse (requestWith (Some ''Bearer user-token'') None))) = Some johndoe"
    by (simp add: isPublic_def authRequired_def rolesRequired_def requiredRoles_def
        requiredClaims_def plainRoute_def no_metadata_def resolveUser_def
        getUserFromContext_def worldAfterUse_def use_def run_def exampleOptions_def
        requestWith_def mockGuard_def authenticateRequest_def MockAuthService_def Let_def)
  have j: "user_id johndoe = ''user-2'' \<and> rolesOf johndoe = [''User'']"
    by (simp add: johndoe_def rolesOf_def)
  show ?thesis
    using h c j no_requirement_allows_and_attaches
            [where ec = plainRoute and g = mockGuard and u = johndoe and c = c
               and w = "worldAfterUse (requestWith (Some ''Bearer user-token'') None)"]
    by auto
qed

section \<open>The authentication provider\<close>

text \<open>
  Claim C8. The guard calls \<^verbatim>\<open>validateToken\<close> only when neither the context nor the
  request carries a principal and the authorization header is \<^verbatim>\<open>Bearer\<close>, one space
  and a token without a space (which may be empty); the token is what it passes. A missing
  or differently formed header gives no principal without a call, a rejected validation
  gives no principal, and whenever authentication gives no principal the guard decides as
  it would without a provider, so a failing validation never surfaces as a fault of its
  own.
\<close>

theorem provider_only_for_bearer:
  "(validated (snd (canActivate g ec w)) \<noteq> validated w \<longrightarrow>
      getUserFromContext w = None \<and> req_user (request w) = None \<and>
      (\<exists>token. Option.bind (authorizationHeader w) bearerToken = Some token
         \<and> validated (snd (canActivate g ec w)) = validated w @ [token]))
   \<and> (Option.bind (authorizationHeader w') bearerToken = None \<longrightarrow>
        authenticateRequest g w' = (None, w'))
   \<and> (authService g = Some svc
        \<and> Option.bind (authorizationHeader w) bearerToken = Some token
        \<and> validateToken svc token = Rejects \<longrightarrow>
        authenticateRequest g w = (None, w\<lparr>validated := validated w @ [token]\<rparr>))
   \<and> (fst (authenticateRequest g w) = None \<longrightarrow>
        fst (canActivate g ec w) = fst (canActivate (g\<lparr>authService := None\<rparr>) ec w))"
proof -
  have invoked: "getUserFromContext w = None \<and> req_user (request w) = None \<and>
      (\<exists>token. Option.bind (authorizationHeader w) bearerToken = Some token
         \<and> validated (snd (canActivate g ec w)) = validated w @ [token])"
    if "validated (snd (canActivate g ec w)) \<noteq> validated w"
  proof -
    from that have "validated (snd (resolveUser g w)) \<noteq> validated w"
      and "validated (snd (canActivate g ec w)) = validated (snd (resolveUser g w))"
      by (auto simp: canActivate_validated split: if_splits)
    then show ?thesis
      using resolveUser_validated[of g w] by simp
  qed
  have malformed: "authenticateRequest g w' = (None, w')"
    if "Option.bind (authorizationHeader w') bearerToken = None"
    using that by (simp add: authenticateRequest_eq split: option.splits)
  have rejected: "authenticateRequest g w = (None, w\<lparr>validated := validated w @ [token]\<rparr>)"
    if "authService g = Some svc
        \<and> Option.bind (authorizationHeader w) bearerToken = Some token
        \<and> validateToken svc token = Rejects"
    using that by (simp add: authenticateRequest_eq)
  have downgraded:
    "fst (canActivate g ec w) = fst (canActivate (g\<lparr>authService := None\<rparr>) ec w)"
    if a: "fst (authenticateRequest g w) = None"
  proof -
    have "fst (resolveUser g w) = fst (resolveUser (g\<lparr>authService := None\<rparr>) w)"
      using a by (auto simp: resolveUser_def Let_def)
    then show ?thesis
      by (cases "resolveUser g w"; cases "resolveUser (g\<lparr>authService := None\<rparr>) w")
         (auto simp: canActivate_def Let_def split: option.splits)
  qed
  show ?thesis
    using invoked malformed rejected downgraded by blast
qed

theorem provider_only_for_bearer_witness:
  "validated (snd (canActivate rejectingGuard adminRoute
      (worldOutsideScope (requestWith (Some ''Bearer expired-token'') None))))
     = [''expired-token'']
   \<and> Option.bind (authorizationHeader
        (worldOutsideScope (requestWith (Some ''Basic dXNlcg=='') None))) bearerToken = None
   \<and> authenticateRequest rejectingGuard
        (worldOutsideScope (requestWith (Some ''Basic dXNlcg=='') None))
       = (None, worldOutsideScope (requestWith (Some ''Basic dXNlcg=='') None))
   \<and> validateToken rejectingAuthService ''expired-token'' = Rejects
   \<and> fst (authenticateRequest rejectingGuard
        (worldOutsideScope (requestWith (Some ''Bearer expired-token'') None))) = None
   \<and> fst (canActivate rejectingGuard adminRoute
        (worldOutsideScope (requestWith (Some ''Bearer expired-token'') None)))
       = Inl (UnauthorizedException ''Authentication required'')"
proof -
  let ?w = "worldOutsideScope (requestWith (Some ''Bearer expired-token'') None)"
  let ?w' = "worldOutsideScope (requestWith (Some ''Basic dXNlcg=='') None)"
  have b: "Option.bind (authorizationHeader ?w) bearerToken = Some ''expired-token''"
    by (simp add: authorizationHeader_def worldOutsideScope_def requestWith_def
        bearerToken_def)
  have b': "Option.bind (authorizationHeader ?w') bearerToken = None"
    by (simp add: authorizationHeader_def worldOutsideScope_def requestWith_def
        bearerToken_def)
  have s: "authService rejectingGuard = Some rejectingAuthService
      \<and> validateToken rejectingAuthService ''expired-token'' = Rejects"
    by (simp add: rejectingGuard_def rejectingAuthService_def)
  have v: "validated ?w = []"
    by (simp add: worldOutsideScope_def)
  note t = provider_only_for_bearer
             [where g = rejectingGuard and ec = adminRoute and w = ?w and w' = ?w'
                and svc = rejectingAuthService and token = "''expired-token''"]
  have r: "authenticateRequest rejectingGuard ?w
      = (None, ?w\<lparr>validated := validated ?w @ [''expired-token'']\<rparr>)"
    using t b s by blast
  have n: "fst (authenticateRequest rejectingGuard ?w) = None"
    using r by simp
  have d: "fst (canActivate rejectingGuard adminRoute ?w)
      = fst (canActivate (rejectingGuard\<lparr>authService := None\<rparr>) adminRoute ?w)"
    using t n by blast
  have u: "fst (canActivate (rejectingGuard\<lparr>authService := None\<rparr>) adminRoute ?w)
      = Inl (UnauthorizedException ''Authentication required'')"
    by (simp add: canActivate_def isPublic_def authRequired_def rolesRequired_def
        requiredRoles_def adminRoute_def decorated_def no_metadata_def resolveUser_def
        getUserFromContext_def worldOutsideScope_def requestWith_def rejectingGuard_def Let_def)
  have a: "resolveUser rejectingGuard ?w = authenticateRequest rejectingGuard ?w"
    by (simp add: resolveUser_def getUserFromContext_def worldOutsideScope_def
        requestWith_def rejectingGuard_def Let_def)
  have c: "validated (snd (canActivate rejectingGuard adminRoute ?w)) = [''expired-token'']"
    using r v by (simp add: canActivate_validated a isPublic_def adminRoute_def
        decorated_def no_metadata_def)
  have m: "authenticateRequest rejectingGuard ?w' = (None, ?w')"
    using t b' by blast
  show ?thesis
    using c b' m s n d u by simp
qed

section \<open>Accessors outside a scope\<close>

text \<open>
  Claim C9. When there is no active context, none of the context decorators fails: \<open>Ctx\<close>
  (with or without a key), \<open>TraceId\<close>, \<open>CurrentUser\<close> (with or without a property),
  \<open>UserId\<close> and \<open>RequestTimestamp\<close> give an absent value, and the function that
  \<open>IsCancelled\<close> returns reports false.
\<close>

theorem accessors_outside_scope:
  "Ctx data None = None \<and> TraceId None = None \<and> CurrentUser property None = None
   \<and> UserId None = None \<and> RequestTimestamp None = None \<and> IsCancelled None () = False"
  by (simp add: Ctx_def TraceId_def CurrentUser_def UserId_def RequestTimestamp_def
      IsCancelled_def)

theorem accessors_outside_scope_witness:
  "current (worldOutsideScope (requestWith None None)) = None
   \<and> Ctx (Some ''traceId'') (current (worldOutsideScope (requestWith None None))) = None
   \<and> CurrentUser (Some ''id'') (current (worldOutsideScope (requestWith None None))) = None
   \<and> \<not> IsCancelled (current (worldOutsideScope (requestWith None None))) ()"
  using accessors_outside_scope [where data = "Some ''traceId''" and property = "Some ''id''"]
  by (simp add: worldOutsideScope_def)

section \<open>The principal is stored before the checks\<close>

text \<open>
  Claim C10. Whenever roles or claims are required on a route that is not public and a
  principal is present, the world the guard leaves behind is the one in which the principal
  has been stored, whether the checks pass or fail. So after every Forbidden the request
  carries the denied principal, and inside a scope the context's \<open>user\<close>, \<open>userId\<close> and
  \<open>roles\<close> are those of the denied principal.
\<close>

theorem principal_stored_before_checks:
  "(isPublic ec \<noteq> Some True \<and> authRequired ec \<and> resolveUser g w = (Some u, w1) \<longrightarrow>
      snd (canActivate g ec w) = storeUserInContext u w1)
   \<and> (canActivate g ec w = (Inl (ForbiddenException msg), w') \<longrightarrow>
        (\<exists>u w1. resolveUser g w = (Some u, w1) \<and> w' = storeUserInContext u w1
           \<and> req_user (request w') = Some u
           \<and> (case current w' of
                None \<Rightarrow> current w = None
              | Some c' \<Rightarrow> user (ctx_data c') = Some u
                  \<and> userId (ctx_data c') = Some (user_id u)
                  \<and> roles (ctx_data c') = Some (rolesOf u))))"
proof -
  have stored: "snd (canActivate g ec w) = storeUserInContext u w1"
    if a: "isPublic ec \<noteq> Some True \<and> authRequired ec \<and> resolveUser g w = (Some u, w1)"
  proof -
    from a have r: "resolveUser g w = (Some u, w1)" by simp
    show ?thesis
      using a by (auto simp: canActivate_not_public[OF _ r] Let_def storeUserInContext_idem
          split: option.splits)
  qed
  have denied: "\<exists>u w1. resolveUser g w = (Some u, w1) \<and> w' = storeUserInContext u w1
           \<and> req_user (request w') = Some u
           \<and> (case current w' of
                None \<Rightarrow> current w = None
              | Some c' \<Rightarrow> user (ctx_data c') = Some u
                  \<and> userId (ctx_data c') = Some (user_id u)
                  \<and> roles (ctx_data c') = Some (rolesOf u))"
    if f: "canActivate g ec w = (Inl (ForbiddenException msg), w')"
  proof -
    obtain usr w1 where r: "resolveUser g w = (usr, w1)"
      by (cases "resolveUser g w") auto
    have np: "isPublic ec \<noteq> Some True"
      using f by (auto simp: canActivate_def)
    have ar: "authRequired ec"
      using f np by (auto simp: canActivate_not_public[OF np r] split: option.splits if_splits)
    obtain u where u: "usr = Some u"
      using f np ar by (cases usr) (auto simp: canActivate_not_public[OF np r])
    have w': "w' = storeUserInContext u w1"
      using f ar u by (auto simp: canActivate_not_public[OF np r] Let_def
          split: option.splits if_splits)
    have c: "current w1 = current w"
      using resolveUser_current[of g w] r by simp
    show ?thesis
      using r u w' c
      by (auto simp: storeUserInContext_def rolesOf_def split: option.splits)
  qed
  show ?thesis
    using stored denied by blast
qed

theorem principal_stored_before_checks_witness:
  "canActivate mockGuard adminRoute
      (worldAfterUse (requestWith (Some ''Bearer user-token'') None))
     = (Inl (ForbiddenException ''Required roles: Admin''),
        storeUserInContext johndoe
          ((worldAfterUse (requestWith (Some ''Bearer user-token'') None))
             \<lparr>validated := [''user-token'']\<rparr>))
   \<and> getUserFromContext (worldAfterUse (requestWith (Some ''Bearer user-token'') None)) = None
   \<and> getUserFromContext (snd (canActivate mockGuard adminRoute
        (worldAfterUse (requestWith (Some ''Bearer user-token'') None)))) = Some johndoe
   \<and> UserId (current (snd (canActivate mockGuard adminRoute
        (worldAfterUse (requestWith (Some ''Bearer user-token'') None))))) = Some ''user-2''"
proof -
  let ?w = "worldAfterUse (requestWith (Some ''Bearer user-token'') None)"
  have r: "resolveUser mockGuard ?w = (Some johndoe, ?w\<lparr>validated := [''user-token'']\<rparr>)"
    by (simp add: resolveUser_def getUserFromContext_def worldAfterUse_def use_def run_def
        exampleOptions_def requestWith_def mockGuard_def authenticateRequest_def
        MockAuthService_def Let_def)
  have h: "isPublic adminRoute \<noteq> Some True \<and> authRequired adminRoute"
    by (simp add: isPublic_def authRequired_def rolesRequired_def requiredRoles_def
        adminRoute_def decorated_def no_metadata_def)
  have f: "fst (canActivate mockGuard adminRoute ?w)
      = Inl (ForbiddenException ''Required roles: Admin'')"
    using h by (simp add: canActivate_not_public[OF _ r] authRequired_def rolesRequired_def
        requiredRoles_def adminRoute_def decorated_def no_metadata_def checkRoles_def
        johndoe_def)
  have s: "snd (canActivate mockGuard adminRoute ?w)
      = storeUserInContext johndoe (?w\<lparr>validated := [''user-token'']\<rparr>)"
    using h r principal_stored_before_checks
                [where ec = adminRoute and g = mockGuard and w = ?w and u = johndoe
                   and ?w1.0 = "?w\<lparr>validated := [''user-token'']\<rparr>"]
    by blast
  have n: "getUserFromContext ?w = None"
    by (simp add: getUserFromContext_def worldAfterUse_def use_def run_def
        exampleOptions_def requestWith_def Let_def)
  have a: "getUserFromContext (storeUserInContext johndoe (?w\<lparr>validated := [''user-token'']\<rparr>))
      = Some johndoe
      \<and> UserId (current (storeUserInContext johndoe (?w\<lparr>validated := [''user-token'']\<rparr>)))
          = Some ''user-2''"
    by (simp add: getUserFromContext_def storeUserInContext_def UserId_def worldAfterUse_def
        use_def run_def Let_def johndoe_def)
  show ?thesis
    using f s n a by (simp add: prod_eq_iff)
qed

end
